theory Spec2Isabelle
  imports Complex_Main
begin

section \<open>Python values and exceptions\<close>

text \<open>
  The exceptions that the statements of \<^verbatim>\<open>raspberry_Pi.py\<close> and the library calls it
  makes can raise. \<^verbatim>\<open>KeyboardInterrupt\<close> and \<^verbatim>\<open>SystemExit\<close> derive from
  \<^verbatim>\<open>BaseException\<close> only; every other one is a subclass of \<^verbatim>\<open>Exception\<close>, which is
  what an \<^verbatim>\<open>except Exception\<close> clause catches.
\<close>

datatype py_exc =
    CalledProcessError
  | FileNotFoundError
  | OSError
  | UnicodeDecodeError
  | IndexError
  | ValueError
  | OverflowError
  | MemoryError
  | TypeError
  | KeyboardInterrupt
  | SystemExit

fun is_Exception :: "py_exc \<Rightarrow> bool" where
  "is_Exception KeyboardInterrupt = False"
| "is_Exception SystemExit = False"
| "is_Exception e = True"

text \<open>
  \<^verbatim>\<open>main\<close> creates two values held by a \<^verbatim>\<open>multiprocessing.Manager\<close>
  (\<^verbatim>\<open>shared_phase\<close>, \<^verbatim>\<open>shared_intensity\<close>) and hands the workers the proxies that
  \<^verbatim>\<open>manager.Value\<close> returned. A value that reaches \<^verbatim>\<open>stress_worker\<close> or a load
  generator is therefore either a plain integer or such a proxy object.
\<close>

datatype shared_ref = SharedPhase | SharedIntensity

datatype pyval = PyInt int | ValueProxy shared_ref

text \<open>
  \<^verbatim>\<open>v == n\<close> for an integer literal \<open>n\<close>. Two integers compare by value. The proxy class
  defines no \<^verbatim>\<open>__eq__\<close>, so a proxy compared with an integer falls back to object
  identity and is never equal to it; the value behind the proxy would have to be read with
  \<^verbatim>\<open>.value\<close>.
\<close>

fun py_eq :: "pyval \<Rightarrow> int \<Rightarrow> bool" where
  "py_eq (PyInt k) n = (k = n)"
| "py_eq (ValueProxy r) n = False"

text \<open>\<^verbatim>\<open>v * n\<close> for an integer literal \<open>n\<close>; the proxy class has no \<^verbatim>\<open>__mul__\<close>.\<close>

fun py_mul :: "pyval \<Rightarrow> int \<Rightarrow> py_exc + int" where
  "py_mul (PyInt k) n = Inr (k * n)"
| "py_mul (ValueProxy r) n = Inl TypeError"

section \<open>Load generators\<close>

text \<open>
  What a load generator meets outside the program: the limits of the interpreter and of
  the machine on the objects whose size grows with the intensity, and the random numbers.
  \<^item> \<open>maxsize\<close> is \<^verbatim>\<open>sys.maxsize\<close>, the largest length and the largest repetition count
    of a sequence.
  \<^item> \<open>bytes_fit n\<close>: a byte string of length \<open>n\<close> can be allocated.
  \<^item> \<open>int_fits x\<close>: the integer \<open>x\<close> can be allocated.
  \<^item> \<open>array_error i sz\<close>: the exception, if any, that \<^verbatim>\<open>numpy\<close> raises when the \<open>i\<close>-th
    array of a call of \<^verbatim>\<open>matrix_operations\<close> is created with side \<open>sz\<close> (the two random
    arrays are number 0 and 1, the product is number 2): \<^verbatim>\<open>ValueError\<close> for dimensions
    that it cannot index, \<^verbatim>\<open>MemoryError\<close> when the memory is not there.
  \<^item> \<open>first_draw i j\<close> and \<open>second_draw i j\<close>: the entry in row \<open>i\<close> and column \<open>j\<close> that
    the first and the second call of \<^verbatim>\<open>np.random.rand\<close> draw.
\<close>

record 'a platform =
  maxsize :: int
  bytes_fit :: "nat \<Rightarrow> bool"
  int_fits :: "int \<Rightarrow> bool"
  array_error :: "nat \<Rightarrow> int \<Rightarrow> py_exc option"
  first_draw :: "nat \<Rightarrow> nat \<Rightarrow> 'a"
  second_draw :: "nat \<Rightarrow> nat \<Rightarrow> 'a"

text \<open>
  \<^verbatim>\<open>for _ in range(n): body\<close>. \<^verbatim>\<open>range(n)\<close> has \<open>n\<close> elements, none when \<open>n\<close> is
  negative, and can be iterated whatever the size of \<open>n\<close>. The loop state is paired with
  the number of times the body has run. \<open>for_range_exc\<close> is the loop whose body can raise.
\<close>

definition range_len :: "int \<Rightarrow> nat" where
  "range_len n = nat n"

fun for_range :: "nat \<Rightarrow> ('s \<Rightarrow> 's) \<Rightarrow> 's \<times> nat \<Rightarrow> 's \<times> nat" where
  "for_range 0 body (s, c) = (s, c)"
| "for_range (Suc n) body (s, c) = for_range n body (body s, Suc c)"

fun for_range_exc ::
  "nat \<Rightarrow> ('s \<Rightarrow> py_exc + 's) \<Rightarrow> 's \<times> nat \<Rightarrow> py_exc + 's \<times> nat" where
  "for_range_exc 0 body (s, c) = Inr (s, c)"
| "for_range_exc (Suc n) body (s, c) =
     (case body s of
        Inl e \<Rightarrow> Inl e
      | Inr s' \<Rightarrow> for_range_exc n body (s', Suc c))"

text \<open>
  The load generators return \<^verbatim>\<open>None\<close> and throw their results away. The model returns
  what they computed: the final \<open>x\<close> and the number of loop iterations of the two arithmetic
  loops, the matrix product, the digests in the order they were computed.
\<close>

datatype 'a work =
    SimpleArithmetic int nat
  | ComplexArithmetic int nat
  | MatrixOperations "'a list list"
  | IntensiveHashing "string list" nat

text \<open>The counter \<open>x\<close> stays below \<open>500 * intensity\<close>, an integer that exists already.\<close>

definition simple_arithmetic :: "pyval \<Rightarrow> py_exc + 'a work" where
  "simple_arithmetic intensity =
     (case py_mul intensity 500 of
        Inl e \<Rightarrow> Inl e
      | Inr n \<Rightarrow>
          (case for_range (range_len n) (\<lambda>x. x + 1) (0, 0) of
             (x, c) \<Rightarrow> Inr (SimpleArithmetic x c)))"

text \<open>
  \<^verbatim>\<open>x *= 2\<close> makes an integer one bit longer than \<open>x\<close>, and raises \<^verbatim>\<open>MemoryError\<close> when
  it cannot be allocated.
\<close>

definition double :: "'a platform \<Rightarrow> int \<Rightarrow> py_exc + int" where
  "double P x = (if int_fits P (x * 2) then Inr (x * 2) else Inl MemoryError)"

definition complex_arithmetic :: "'a platform \<Rightarrow> pyval \<Rightarrow> py_exc + 'b work" where
  "complex_arithmetic P intensity =
     (case py_mul intensity 1000 of
        Inl e \<Rightarrow> Inl e
      | Inr n \<Rightarrow>
          (case for_range_exc (range_len n) (double P) (1, 0) of
             Inl e \<Rightarrow> Inl e
           | Inr (x, c) \<Rightarrow> Inr (ComplexArithmetic x c)))"

text \<open>
  \<^verbatim>\<open>np.random.rand(size, size)\<close>: a \<open>size \<times> size\<close> array of the entries drawn. A negative
  dimension raises, \<^verbatim>\<open>ValueError\<close> unless the platform names another exception for it,
  and so does a dimension for which the array cannot be created (\<open>err\<close> is what the
  platform says of this array).
\<close>

definition rand_matrix :: "(nat \<Rightarrow> nat \<Rightarrow> 'a) \<Rightarrow> nat \<Rightarrow> 'a list list" where
  "rand_matrix draw n = map (\<lambda>i. map (\<lambda>j. draw i j) [0..<n]) [0..<n]"

definition random_rand ::
  "py_exc option \<Rightarrow> (nat \<Rightarrow> nat \<Rightarrow> 'a) \<Rightarrow> int \<Rightarrow> py_exc + 'a list list" where
  "random_rand err draw sz =
     (if sz < 0 then Inl (case err of Some e \<Rightarrow> e | None \<Rightarrow> ValueError)
      else (case err of
              Some e \<Rightarrow> Inl e
            | None \<Rightarrow> Inr (rand_matrix draw (nat sz))))"

text \<open>
  \<^verbatim>\<open>np.dot(a, b)\<close> of two square arrays with the same number of rows: the matrix
  product, in a new array, which may fail to be created.
\<close>

definition dot :: "'a::semiring_0 list list \<Rightarrow> 'a list list \<Rightarrow> 'a list list" where
  "dot a b =
     map (\<lambda>i. map (\<lambda>j. sum_list (map (\<lambda>k. a ! i ! k * b ! k ! j) [0..<length a]))
                   [0..<length a])
         [0..<length a]"

definition np_dot ::
  "py_exc option \<Rightarrow> 'a::semiring_0 list list \<Rightarrow> 'a list list \<Rightarrow> py_exc + 'a list list" where
  "np_dot err a b = (case err of Some e \<Rightarrow> Inl e | None \<Rightarrow> Inr (dot a b))"

definition matrix_operations :: "'a platform \<Rightarrow> pyval \<Rightarrow> py_exc + ('a::semiring_0) work" where
  "matrix_operations P intensity =
     (case py_mul intensity 15 of
        Inl e \<Rightarrow> Inl e
      | Inr sz \<Rightarrow>
          (case random_rand (array_error P 0 sz) (first_draw P) sz of
             Inl e \<Rightarrow> Inl e
           | Inr a \<Rightarrow>
               (case random_rand (array_error P 1 sz) (second_draw P) sz of
                  Inl e \<Rightarrow> Inl e
                | Inr b \<Rightarrow>
                    (case np_dot (array_error P 2 sz) a b of
                       Inl e \<Rightarrow> Inl e
                     | Inr m \<Rightarrow> Inr (MatrixOperations m)))))"

text \<open>
  \<^verbatim>\<open>b * n\<close> for a byte string \<open>b\<close>. A count that is not an index-sized integer raises
  \<^verbatim>\<open>OverflowError\<close>; a count that is not positive gives the empty byte string; a result
  longer than \<^verbatim>\<open>sys.maxsize\<close> raises \<^verbatim>\<open>OverflowError\<close>; a result as long as \<open>b\<close> is \<open>b\<close>
  itself; any other result is a new byte string, and \<^verbatim>\<open>MemoryError\<close> is raised when it
  cannot be allocated. \<^verbatim>\<open>hashlib.sha256(data).digest()\<close> is a parameter of the model.
\<close>

definition bytes_repeat :: "'a platform \<Rightarrow> string \<Rightarrow> int \<Rightarrow> py_exc + string" where
  "bytes_repeat P b n =
     (if n < - maxsize P - 1 \<or> maxsize P < n then Inl OverflowError
      else if n \<le> 0 then Inr []
      else if maxsize P < int (length b) * n then Inl OverflowError
      else if length b * nat n = length b then Inr b
      else if \<not> bytes_fit P (length b * nat n) then Inl MemoryError
      else Inr (concat (replicate (nat n) b)))"

definition intensive_hashing ::
  "'a platform \<Rightarrow> (string \<Rightarrow> string) \<Rightarrow> pyval \<Rightarrow> py_exc + 'b work" where
  "intensive_hashing P sha256 intensity =
     (case py_mul intensity 10 of
        Inl e \<Rightarrow> Inl e
      | Inr m \<Rightarrow>
          (case bytes_repeat P ''stress_data'' m of
             Inl e \<Rightarrow> Inl e
           | Inr data \<Rightarrow>
               (case py_mul intensity 20 of
                  Inl e \<Rightarrow> Inl e
                | Inr n \<Rightarrow>
                    (case for_range (range_len n) (\<lambda>ds. ds @ [sha256 data]) ([], 0) of
                       (ds, c) \<Rightarrow> Inr (IntensiveHashing ds c)))))"

section \<open>Worker\<close>

text \<open>
  One pass through the body of the \<^verbatim>\<open>while True\<close> loop of \<^verbatim>\<open>stress_worker\<close>: the load
  generator that ran and what it computed, \<open>None\<close> when no branch of the chain was taken.
\<close>

definition stress_worker_iter ::
  "(string \<Rightarrow> string) \<Rightarrow> 'a platform \<Rightarrow> pyval \<Rightarrow> pyval
     \<Rightarrow> py_exc + ('a::semiring_0) work option" where
  "stress_worker_iter sha256 P phase intensity =
     (if py_eq phase 1 then map_sum id Some (simple_arithmetic intensity)
      else if py_eq phase 2 then map_sum id Some (complex_arithmetic P intensity)
      else if py_eq phase 3 then map_sum id Some (matrix_operations P intensity)
      else if py_eq phase 4 then map_sum id Some (intensive_hashing P sha256 intensity)
      else Inr None)"

text \<open>
  The loop never returns. \<open>stress_worker sha256 plat n t phase intensity\<close> runs its next
  \<open>n\<close> iterations, \<open>t\<close> being the number of iterations already done and \<open>plat t\<close> the
  platform as iteration \<open>t\<close> finds it, with its random draws: \<open>Inr ws\<close> when all \<open>n\<close>
  completed, with what each one ran, and \<open>Inl e\<close> when a load generator raised \<open>e\<close>,
  which ends the worker.
\<close>

fun stress_worker ::
  "(string \<Rightarrow> string) \<Rightarrow> (nat \<Rightarrow> 'a platform) \<Rightarrow> nat \<Rightarrow> nat
     \<Rightarrow> pyval \<Rightarrow> pyval \<Rightarrow> py_exc + ('a::semiring_0) work option list" where
  "stress_worker sha256 plat 0 t phase intensity = Inr []"
| "stress_worker sha256 plat (Suc n) t phase intensity =
     (case stress_worker_iter sha256 (plat t) phase intensity of
        Inl e \<Rightarrow> Inl e
      | Inr w \<Rightarrow>
          (case stress_worker sha256 plat n (Suc t) phase intensity of
             Inl e \<Rightarrow> Inl e
           | Inr ws \<Rightarrow> Inr (w # ws)))"

section \<open>Sensor adapter\<close>

text \<open>
  \<^verbatim>\<open>subprocess.check_output\<close> returns the bytes the command printed or raises. Bytes are
  \<^typ>\<open>char\<close>s; a decoded \<^verbatim>\<open>str\<close> is the list of its Unicode code points.
  \<^verbatim>\<open>bytes.decode('utf-8')\<close> accepts the well-formed byte sequences of UTF-8 and raises
  \<^verbatim>\<open>UnicodeDecodeError\<close> on anything else.
\<close>

definition cont_byte :: "nat \<Rightarrow> bool" where
  "cont_byte b \<longleftrightarrow> 0x80 \<le> b \<and> b \<le> 0xBF"

fun utf8_decode :: "nat list \<Rightarrow> nat list option" where
  "utf8_decode [] = Some []"
| "utf8_decode (b0 # bs) =
     (if b0 < 0x80 then map_option ((#) b0) (utf8_decode bs)
      else if 0xC2 \<le> b0 \<and> b0 \<le> 0xDF then
        (case bs of
           b1 # r \<Rightarrow>
             if cont_byte b1
             then map_option ((#) ((b0 - 0xC0) * 0x40 + (b1 - 0x80))) (utf8_decode r)
             else None
         | _ \<Rightarrow> None)
      else if 0xE0 \<le> b0 \<and> b0 \<le> 0xEF then
        (case bs of
           b1 # b2 # r \<Rightarrow>
             if (if b0 = 0xE0 then 0xA0 else 0x80) \<le> b1
                \<and> b1 \<le> (if b0 = 0xED then 0x9F else 0xBF) \<and> cont_byte b2
             then map_option
                    ((#) ((b0 - 0xE0) * 0x1000 + (b1 - 0x80) * 0x40 + (b2 - 0x80)))
                    (utf8_decode r)
             else None
         | _ \<Rightarrow> None)
      else if 0xF0 \<le> b0 \<and> b0 \<le> 0xF4 then
        (case bs of
           b1 # b2 # b3 # r \<Rightarrow>
             if (if b0 = 0xF0 then 0x90 else 0x80) \<le> b1
                \<and> b1 \<le> (if b0 = 0xF4 then 0x8F else 0xBF) \<and> cont_byte b2 \<and> cont_byte b3
             then map_option
                    ((#) ((b0 - 0xF0) * 0x40000 + (b1 - 0x80) * 0x1000 + (b2 - 0x80) * 0x40
                          + (b3 - 0x80)))
                    (utf8_decode r)
             else None
         | _ \<Rightarrow> None)
      else None)"

definition decode :: "string \<Rightarrow> py_exc + nat list" where
  "decode raw =
     (case utf8_decode (map of_char raw) of
        None \<Rightarrow> Inl UnicodeDecodeError
      | Some s \<Rightarrow> Inr s)"

text \<open>\<^verbatim>\<open>s.split(sep)\<close> for a separator of one character: never an empty list.\<close>

fun split_on :: "nat \<Rightarrow> nat list \<Rightarrow> nat list list" where
  "split_on sep [] = [[]]"
| "split_on sep (c # cs) =
     (if c = sep then [] # split_on sep cs
      else (case split_on sep cs of
              p # ps \<Rightarrow> (c # p) # ps
            | [] \<Rightarrow> [[c]]))"

text \<open>\<^verbatim>\<open>xs[i]\<close> for an index literal \<open>i \<ge> 0\<close>.\<close>

definition py_index :: "'a list \<Rightarrow> nat \<Rightarrow> py_exc + 'a" where
  "py_index xs i = (if i < length xs then Inr (xs ! i) else Inl IndexError)"

text \<open>
  The conversions of Python itself that the sensor functions call, as parameters of the
  model: \<^verbatim>\<open>int(s)\<close> and \<^verbatim>\<open>float(s)\<close> on a \<^verbatim>\<open>str\<close>, which return a number or raise
  \<^verbatim>\<open>ValueError\<close> (\<open>None\<close>), and the true division \<^verbatim>\<open>n / d\<close> of an integer by a non-zero
  integer, which returns a float or raises \<^verbatim>\<open>OverflowError\<close> (\<open>None\<close>). \<open>'f\<close> is the
  type of floats.
\<close>

record 'f builtins =
  py_int :: "nat list \<Rightarrow> int option"
  py_float :: "nat list \<Rightarrow> 'f option"
  int_truediv :: "int \<Rightarrow> int \<Rightarrow> 'f option"

text \<open>
  \<^verbatim>\<open>try: ...; return v\<close> followed by \<^verbatim>\<open>except Exception: return None\<close>: the handler takes
  the exceptions that are subclasses of \<^verbatim>\<open>Exception\<close>, the others propagate.
\<close>

definition except_Exception_return_None :: "py_exc + 'a \<Rightarrow> py_exc + 'a option" where
  "except_Exception_return_None body =
     (case body of
        Inr v \<Rightarrow> Inr (Some v)
      | Inl e \<Rightarrow> if is_Exception e then Inr None else Inl e)"

text \<open>
  The argument \<open>out\<close> of the two sensor functions is the outcome of their
  \<^verbatim>\<open>subprocess.check_output\<close> call.
\<close>

definition get_cpu_frequency :: "'f builtins \<Rightarrow> py_exc + string \<Rightarrow> py_exc + 'f option" where
  "get_cpu_frequency B out =
     except_Exception_return_None
       (case out of
          Inl e \<Rightarrow> Inl e
        | Inr raw \<Rightarrow>
            (case decode raw of
               Inl e \<Rightarrow> Inl e
             | Inr freq_str \<Rightarrow>
                 (case py_index (split_on (of_char CHR ''='') freq_str) 1 of
                    Inl e \<Rightarrow> Inl e
                  | Inr field \<Rightarrow>
                      (case py_int B field of
                         None \<Rightarrow> Inl ValueError
                       | Some n \<Rightarrow>
                           (case int_truediv B n 1000000 of
                              None \<Rightarrow> Inl OverflowError
                            | Some freq \<Rightarrow> Inr freq)))))"

definition get_cpu_temperature :: "'f builtins \<Rightarrow> py_exc + string \<Rightarrow> py_exc + 'f option" where
  "get_cpu_temperature B out =
     except_Exception_return_None
       (case out of
          Inl e \<Rightarrow> Inl e
        | Inr raw \<Rightarrow>
            (case decode raw of
               Inl e \<Rightarrow> Inl e
             | Inr temp_str \<Rightarrow>
                 (case py_index (split_on (of_char CHR ''='') temp_str) 1 of
                    Inl e \<Rightarrow> Inl e
                  | Inr field \<Rightarrow>
                      (case py_index (split_on (of_char (CHR 0x27)) field) 0 of
                         Inl e \<Rightarrow> Inl e
                       | Inr num \<Rightarrow>
                           (case py_float B num of
                              None \<Rightarrow> Inl ValueError
                            | Some temp \<Rightarrow> Inr temp)))))"

section \<open>Control loop of \<^verbatim>\<open>main\<close>\<close>

text \<open>
  One telemetry record. \<open>timestamp\<close> is the \<^verbatim>\<open>current_time\<close> of the loop iteration that
  printed it; the printed line shows the other fields.
\<close>

record 'f telemetry_sample =
  timestamp :: real
  sample_phase :: int
  sample_intensity :: int
  cpu_freq_mhz :: "'f option"
  cpu_temp_c :: "'f option"
  cpu_usage_pct :: 'f
  load_avg :: "'f \<times> 'f \<times> 'f"

datatype 'f line =
    Detected nat
  | Escalating int int
  | Telemetry "'f telemetry_sample"
  | Stopping

text \<open>
  The variables of \<^verbatim>\<open>main\<close>, the two values held by the manager, the calls of
  \<^verbatim>\<open>terminate\<close> made so far and the lines printed so far. A process object is named by
  the number of process objects created before it.
\<close>

record 'f ctrl =
  phase :: int
  intensity :: int
  phase_start_time :: real
  last_log_time :: real
  shared_phase :: int
  shared_intensity :: int
  processes :: "nat list"
  terminated :: "nat list"
  printed :: "'f line list"

text \<open>
  What one iteration of the control loop gets from outside: the reading of
  \<^verbatim>\<open>time.time()\<close>, and the outcome of each call that can block or fail. Clock readings
  are real numbers here; the program holds them in floats and only subtracts two of them
  and compares the difference with 30 or with 1. An interrupt shows as
  \<^verbatim>\<open>KeyboardInterrupt\<close> raised by one of these calls.
\<close>

record 'f loop_input =
  current_time :: real
  measure_clock :: "py_exc + string"
  measure_temp :: "py_exc + string"
  getloadavg :: "py_exc + 'f \<times> 'f \<times> 'f"
  cpu_percent :: "py_exc + 'f"
  sleep :: "py_exc option"

definition phase_duration :: real where
  "phase_duration = 30"

text \<open>The statements of the escalation block, one state transformer each, in order.\<close>

definition escalate_stmts :: "real \<Rightarrow> ('f ctrl \<Rightarrow> 'f ctrl) list" where
  "escalate_stmts now =
     [\<lambda>s. s\<lparr>phase := phase s + 1\<rparr>,
      \<lambda>s. if phase s > 4 then s\<lparr>phase := 4\<rparr> else s,
      \<lambda>s. s\<lparr>shared_phase := phase s\<rparr>,
      \<lambda>s. s\<lparr>intensity := intensity s + 1\<rparr>,
      \<lambda>s. s\<lparr>shared_intensity := intensity s\<rparr>,
      \<lambda>s. s\<lparr>phase_start_time := now\<rparr>,
      \<lambda>s. s\<lparr>printed := printed s @ [Escalating (phase s) (intensity s)]\<rparr>]"

definition escalation_due :: "real \<Rightarrow> 'f ctrl \<Rightarrow> bool" where
  "escalation_due now s \<longleftrightarrow> now - phase_start_time s \<ge> phase_duration"

definition escalate :: "real \<Rightarrow> 'f ctrl \<Rightarrow> 'f ctrl" where
  "escalate now s =
     (if escalation_due now s then fold (\<lambda>stmt. stmt) (escalate_stmts now) s else s)"

text \<open>
  The states that another process can see while the escalation block runs: the state
  before it and the state after each of its statements.
\<close>

fun run_stmts :: "('s \<Rightarrow> 's) list \<Rightarrow> 's \<Rightarrow> 's list" where
  "run_stmts [] s = [s]"
| "run_stmts (stmt # stmts) s = s # run_stmts stmts (stmt s)"

definition shared_pair :: "'f ctrl \<Rightarrow> int \<times> int" where
  "shared_pair s = (shared_phase s, shared_intensity s)"

definition published_pairs :: "real \<Rightarrow> 'f ctrl \<Rightarrow> (int \<times> int) list" where
  "published_pairs now s =
     (if escalation_due now s then map shared_pair (run_stmts (escalate_stmts now) s)
      else [shared_pair s])"

text \<open>The escalation block applied at each of a list of clock readings, in order.\<close>

fun ticks :: "real list \<Rightarrow> 'f ctrl \<Rightarrow> 'f ctrl" where
  "ticks [] s = s"
| "ticks (now # nows) s = ticks nows (escalate now s)"

definition log_due :: "real \<Rightarrow> 'f ctrl \<Rightarrow> bool" where
  "log_due now s \<longleftrightarrow> now - last_log_time s \<ge> 1"

definition log_telemetry :: "'f builtins \<Rightarrow> 'f loop_input \<Rightarrow> 'f ctrl \<Rightarrow> py_exc + 'f ctrl" where
  "log_telemetry B inp s =
     (if log_due (current_time inp) s then
        (case get_cpu_frequency B (measure_clock inp) of
           Inl e \<Rightarrow> Inl e
         | Inr cpu_freq \<Rightarrow>
             (case get_cpu_temperature B (measure_temp inp) of
                Inl e \<Rightarrow> Inl e
              | Inr cpu_temp \<Rightarrow>
                  (case getloadavg inp of
                     Inl e \<Rightarrow> Inl e
                   | Inr load \<Rightarrow>
                       (case cpu_percent inp of
                          Inl e \<Rightarrow> Inl e
                        | Inr cpu_usage \<Rightarrow>
                            Inr (s\<lparr>printed := printed s @
                                     [Telemetry \<lparr>timestamp = current_time inp,
                                        sample_phase = phase s,
                                        sample_intensity = intensity s,
                                        cpu_freq_mhz = cpu_freq,
                                        cpu_temp_c = cpu_temp,
                                        cpu_usage_pct = cpu_usage,
                                        load_avg = load\<rparr>],
                                   last_log_time := current_time inp\<rparr>)))))
      else Inr s)"

text \<open>
  One iteration of the \<^verbatim>\<open>while True\<close> loop of \<^verbatim>\<open>main\<close>: the exception that ended it,
  if any, and the state reached.
\<close>

definition loop_body :: "'f builtins \<Rightarrow> 'f loop_input \<Rightarrow> 'f ctrl \<Rightarrow> py_exc option \<times> 'f ctrl" where
  "loop_body B inp s =
     (let s1 = escalate (current_time inp) s in
      case log_telemetry B inp s1 of
        Inl e \<Rightarrow> (Some e, s1)
      | Inr s2 \<Rightarrow> (sleep inp, s2))"

text \<open>
  The loop has no exit of its own. Over a list of iteration inputs it stops at the first
  exception; \<open>None\<close> means that it is still running after the last input.
\<close>

fun control_loop :: "'f builtins \<Rightarrow> 'f loop_input list \<Rightarrow> 'f ctrl \<Rightarrow> py_exc option \<times> 'f ctrl" where
  "control_loop B [] s = (None, s)"
| "control_loop B (inp # inps) s =
     (case loop_body B inp s of
        (Some e, s') \<Rightarrow> (Some e, s')
      | (None, s') \<Rightarrow> control_loop B inps s')"

section \<open>Supervisor\<close>

text \<open>
  The loop that creates, starts and appends one process per core. Starting a process is
  taken to succeed; a failure there is raised before the \<^verbatim>\<open>try\<close> block of \<^verbatim>\<open>main\<close>
  is entered.
\<close>

definition spawn_workers :: "nat \<Rightarrow> nat list" where
  "spawn_workers num_cores =
     fst (for_range num_cores (\<lambda>procs. procs @ [length procs]) ([], 0))"

text \<open>
  The state when the control loop is entered: \<open>t_start\<close> and \<open>t_loop\<close> are the clock
  readings that initialise \<^verbatim>\<open>phase_start_time\<close> and \<^verbatim>\<open>last_log_time\<close>.
\<close>

definition initial_state :: "nat \<Rightarrow> real \<Rightarrow> real \<Rightarrow> 'f ctrl" where
  "initial_state num_cores t_start t_loop =
     \<lparr>phase = 1, intensity = 1, phase_start_time = t_start, last_log_time = t_loop,
      shared_phase = 1, shared_intensity = 1, processes = spawn_workers num_cores,
      terminated = [], printed = [Detected num_cores]\<rparr>"

text \<open>The handler of \<^verbatim>\<open>KeyboardInterrupt\<close>, up to the call of \<^verbatim>\<open>sys.exit\<close>.\<close>

definition stop :: "'f ctrl \<Rightarrow> 'f ctrl" where
  "stop s =
     fold (\<lambda>p s'. s'\<lparr>terminated := terminated s' @ [p]\<rparr>) (processes s)
       (s\<lparr>printed := printed s @ [Stopping]\<rparr>)"

datatype exit_state = Running | Exited int | Uncaught py_exc

definition main ::
  "'f builtins \<Rightarrow> nat \<Rightarrow> real \<Rightarrow> real \<Rightarrow> 'f loop_input list \<Rightarrow> exit_state \<times> 'f ctrl" where
  "main B num_cores t_start t_loop inps =
     (case control_loop B inps (initial_state num_cores t_start t_loop) of
        (None, s) \<Rightarrow> (Running, s)
      | (Some e, s) \<Rightarrow>
          if e = KeyboardInterrupt then (Exited 0, stop s) else (Uncaught e, s))"

text \<open>The timestamps of the telemetry records among the printed lines, in order.\<close>

fun sample_times :: "'f line list \<Rightarrow> real list" where
  "sample_times [] = []"
| "sample_times (Telemetry smp # ls) = timestamp smp # sample_times ls"
| "sample_times (l # ls) = sample_times ls"

fun escalations :: "'f line list \<Rightarrow> nat" where
  "escalations [] = 0"
| "escalations (Escalating p i # ls) = Suc (escalations ls)"
| "escalations (l # ls) = escalations ls"

section \<open>Properties of runs and concrete inputs\<close>

text \<open>
  \<open>spaced_less d prev ts\<close>: each clock reading of \<open>ts\<close> is less than \<open>d\<close> after the one
  before it, the first one less than \<open>d\<close> after \<open>prev\<close>. \<open>gaps_le d prev ts\<close>: each
  reading is not before the previous one and at most \<open>d\<close> after it.
\<close>

fun spaced_less :: "real \<Rightarrow> real \<Rightarrow> real list \<Rightarrow> bool" where
  "spaced_less d prev [] = True"
| "spaced_less d prev (t # ts) = (t - prev < d \<and> spaced_less d t ts)"

fun gaps_le :: "real \<Rightarrow> real \<Rightarrow> real list \<Rightarrow> bool" where
  "gaps_le d prev [] = True"
| "gaps_le d prev (t # ts) = (prev \<le> t \<and> t - prev \<le> d \<and> gaps_le d t ts)"

text \<open>The timestamps that fall into the window from \<open>a\<close> (included) to \<open>b\<close> (excluded).\<close>

definition samples_in :: "real \<Rightarrow> real \<Rightarrow> real list \<Rightarrow> real list" where
  "samples_in a b ts = filter (\<lambda>t. a \<le> t \<and> t < b) ts"

text \<open>
  \<open>separated ts\<close>: each timestamp of \<open>ts\<close> is at least one time unit after the one
  before it.
\<close>

fun separated :: "real list \<Rightarrow> bool" where
  "separated [] = True"
| "separated [t] = True"
| "separated (t # u # ts) = (u - t \<ge> 1 \<and> separated (u # ts))"

text \<open>
  What holds of the controller's variables between two iterations of the loop: the phase
  is the intensity capped at 4, the intensity counts the escalations printed so far, and
  the shared values are the local ones.
\<close>

definition ctrl_inv :: "'f ctrl \<Rightarrow> bool" where
  "ctrl_inv s \<longleftrightarrow>
     phase s = min (intensity s) 4 \<and> 1 \<le> intensity s
     \<and> intensity s = 1 + int (escalations (printed s))
     \<and> shared_phase s = phase s \<and> shared_intensity s = intensity s"

text \<open>
  What holds of the telemetry records printed so far: they are at least one time unit
  apart and none is later than \<^verbatim>\<open>last_log_time\<close>.
\<close>

definition log_inv :: "'f ctrl \<Rightarrow> bool" where
  "log_inv s \<longleftrightarrow>
     separated (sample_times (printed s))
     \<and> list_all (\<lambda>t. t \<le> last_log_time s) (sample_times (printed s))"

text \<open>
  An outcome of a platform query: the command printed some bytes, or the call failed with
  an error, which is a subclass of \<^verbatim>\<open>Exception\<close>. (An interrupt that arrives during the
  call is \<^verbatim>\<open>KeyboardInterrupt\<close>, which is not.)
\<close>

definition query_outcome :: "py_exc + string \<Rightarrow> bool" where
  "query_outcome out = (case out of Inl e \<Rightarrow> is_Exception e | Inr raw \<Rightarrow> True)"

text \<open>
  An instance of the conversions for evaluating the model on the output that
  \<^verbatim>\<open>vcgencmd\<close> usually prints: unsigned decimal literals in ASCII, surrounded by white
  space, read as Python reads them, and an exact quotient for the division.
\<close>

definition is_space :: "nat \<Rightarrow> bool" where
  "is_space c \<longleftrightarrow> c = 32 \<or> (9 \<le> c \<and> c \<le> 13)"

definition strip :: "nat list \<Rightarrow> nat list" where
  "strip s = rev (dropWhile is_space (rev (dropWhile is_space s)))"

definition is_digits :: "nat list \<Rightarrow> bool" where
  "is_digits s \<longleftrightarrow> s \<noteq> [] \<and> list_all (\<lambda>c. 48 \<le> c \<and> c \<le> 57) s"

definition digits_value :: "nat list \<Rightarrow> nat" where
  "digits_value s = foldl (\<lambda>n c. 10 * n + (c - 48)) 0 s"

definition ascii_int :: "nat list \<Rightarrow> int option" where
  "ascii_int s = (if is_digits (strip s) then Some (int (digits_value (strip s))) else None)"

definition ascii_float :: "nat list \<Rightarrow> real option" where
  "ascii_float s =
     (case split_on (of_char CHR ''.'') (strip s) of
        [a] \<Rightarrow> if is_digits a then Some (real (digits_value a)) else None
      | [a, b] \<Rightarrow>
          if is_digits a \<and> is_digits b
          then Some (real (digits_value a) + real (digits_value b) / 10 ^ length b)
          else None
      | _ \<Rightarrow> None)"

definition ascii_builtins :: "real builtins" where
  "ascii_builtins =
     \<lparr>py_int = ascii_int, py_float = ascii_float,
      int_truediv = (\<lambda>n d. Some (real_of_int n / real_of_int d))\<rparr>"


text \<open>
  A loop iteration at clock reading \<open>t\<close> on a machine without \<^verbatim>\<open>vcgencmd\<close>, idle, and
  not interrupted.
\<close>

definition quiet_input :: "real \<Rightarrow> real loop_input" where
  "quiet_input t =
     \<lparr>current_time = t, measure_clock = Inl FileNotFoundError,
      measure_temp = Inl FileNotFoundError, getloadavg = Inr (0, 0, 0),
      cpu_percent = Inr 0, sleep = None\<rparr>"

text \<open>
  An iteration at clock reading 1 on which \<^verbatim>\<open>vcgencmd measure_temp\<close> fails and
  \<^verbatim>\<open>vcgencmd measure_clock arm\<close> prints a reading, and an interrupted iteration.
\<close>

definition temp_failed_input :: "real loop_input" where
  "temp_failed_input =
     \<lparr>current_time = 1, measure_clock = Inr ''frequency(48)=1500000000\<newline>'',
      measure_temp = Inl CalledProcessError, getloadavg = Inr (1, 1, 1),
      cpu_percent = Inr 100, sleep = None\<rparr>"

definition interrupted_input :: "real \<Rightarrow> real loop_input" where
  "interrupted_input t = (quiet_input t)\<lparr>sleep := Some KeyboardInterrupt\<rparr>"

text \<open>
  Eight iterations of the control loop, one every 0.3 time units from the moment the loop
  is entered at clock reading 0: the sleep of 0.2 and the work of an iteration.
\<close>

definition steady_inputs :: "real loop_input list" where
  "steady_inputs =
     map quiet_input [3 / 10, 6 / 10, 9 / 10, 12 / 10, 15 / 10, 18 / 10, 21 / 10, 24 / 10]"

section \<open>Load generators and worker: results\<close>







lemma matrix_operations_product:
  assumes "0 \<le> k"
    and "array_error P 0 (15 * k) = None" and "array_error P 1 (15 * k) = None"
    and "array_error P 2 (15 * k) = None"
  shows "matrix_operations P (PyInt k) =
           Inr (MatrixOperations
                  (dot (rand_matrix (first_draw P) (nat (15 * k)))
                       (rand_matrix (second_draw P) (nat (15 * k)))))"
proof -
  have nn: "\<not> k * 15 < 0" using assms(1) by simp
  show ?thesis
    using nn assms(2-4)
    by (simp add: matrix_operations_def random_rand_def np_dot_def mult.commute)
qed


text \<open>A count whose result is longer than \<^verbatim>\<open>sys.maxsize\<close> raises before anything is hashed.\<close>

lemma intensive_hashing_overflow:
  assumes "0 < k" and "maxsize P < 110 * k"
  shows "intensive_hashing P sha (PyInt k) = Inl OverflowError"
  using assms by (simp add: intensive_hashing_def bytes_repeat_def)

lemma stress_worker_iter_proxy:
  "stress_worker_iter sha P (ValueProxy r) v = Inr None"
  by (simp add: stress_worker_iter_def)

text \<open>
  Called with plain integers, one iteration dispatches on the phase: phase 3 with
  intensity 2 multiplies two random matrices of side 30, where they can be created.
\<close>

lemma stress_worker_iter_int_3_2:
  assumes "array_error P 0 30 = None" and "array_error P 1 30 = None"
    and "array_error P 2 30 = None"
  shows "stress_worker_iter sha P (PyInt 3) (PyInt 2) =
           Inr (Some (MatrixOperations
                        (dot (rand_matrix (first_draw P) 30) (rand_matrix (second_draw P) 30))))"
  using matrix_operations_product [of 2 P] assms by (simp add: stress_worker_iter_def)

text \<open>
  C1. The claim: in every iteration the worker reads the shared phase and intensity and
  runs the load generator that the phase selects, so that phase 3 with intensity 2 runs the
  matrix workload with side 30. \<^verbatim>\<open>main\<close> starts every worker on the two proxies of the
  shared values, and \<^verbatim>\<open>stress_worker\<close> compares the proxy itself with 1, 2, 3 and 4
  without reading its \<^verbatim>\<open>.value\<close>: whatever the shared values are, no iteration runs any
  load generator.
\<close>

theorem worker_with_proxies_runs_no_generator:
  "stress_worker sha plat n t (ValueProxy SharedPhase) (ValueProxy SharedIntensity)
     = Inr (replicate n None)"
  by (induction n arbitrary: t) (simp_all add: stress_worker_iter_proxy)




section \<open>Escalation controller: results\<close>

lemma escalate_due:
  "escalation_due now s \<Longrightarrow>
   escalate now s =
     s\<lparr>phase := min (phase s + 1) 4, intensity := intensity s + 1,
       phase_start_time := now, shared_phase := min (phase s + 1) 4,
       shared_intensity := intensity s + 1,
       printed := printed s @ [Escalating (min (phase s + 1) 4) (intensity s + 1)]\<rparr>"
  by (simp add: escalate_def escalate_stmts_def min_def)

lemma escalate_not_due: "\<not> escalation_due now s \<Longrightarrow> escalate now s = s"
  by (simp add: escalate_def)

lemma escalations_append: "escalations (xs @ ys) = escalations xs + escalations ys"
  by (induction xs rule: escalations.induct) simp_all

lemma sample_times_append: "sample_times (xs @ ys) = sample_times xs @ sample_times ys"
  by (induction xs rule: sample_times.induct) simp_all

lemma ctrl_inv_initial: "ctrl_inv (initial_state n t_start t_loop)"
  by (simp add: ctrl_inv_def initial_state_def)

lemma ctrl_inv_escalate: "ctrl_inv s \<Longrightarrow> ctrl_inv (escalate now s)"
  by (cases "escalation_due now s")
     (auto simp: escalate_due escalate_not_due ctrl_inv_def escalations_append)

lemma ctrl_inv_ticks: "ctrl_inv s \<Longrightarrow> ctrl_inv (ticks nows s)"
  by (induction nows arbitrary: s) (simp_all add: ctrl_inv_escalate)

text \<open>
  C2, as the code has it. A tick at a clock reading less than \<open>phase_duration\<close> after
  \<^verbatim>\<open>phase_start_time\<close> changes nothing, and neither does any number of ticks whose
  readings are all less than \<open>phase_duration\<close> after \<^verbatim>\<open>phase_start_time\<close>. The window
  is measured from the start of the phase, not from the previous tick.
\<close>

theorem tick_within_window_noop:
  "(now - phase_start_time s < phase_duration \<longrightarrow> escalate now s = s)
   \<and> ((\<forall>t\<in>set nows. t - phase_start_time s < phase_duration) \<longrightarrow> ticks nows s = s)"
proof
  show "now - phase_start_time s < phase_duration \<longrightarrow> escalate now s = s"
    by (simp add: escalate_def escalation_due_def)
  show "(\<forall>t\<in>set nows. t - phase_start_time s < phase_duration) \<longrightarrow> ticks nows s = s"
    by (induction nows) (simp_all add: escalate_def escalation_due_def)
qed

theorem tick_within_window_noop_witness:
  "(29::real) - phase_start_time (initial_state 4 0 0 :: real ctrl) < phase_duration
   \<and> escalate 29 (initial_state 4 0 0 :: real ctrl) = initial_state 4 0 0
   \<and> list_all (\<lambda>t. t - phase_start_time (initial_state 4 0 0 :: real ctrl) < phase_duration)
        [5, 29, 12]
   \<and> ticks [5, 29, 12] (initial_state 4 0 0 :: real ctrl) = initial_state 4 0 0"
  using tick_within_window_noop [of 29 "initial_state 4 0 0 :: real ctrl" "[5, 29, 12]"]
  by (simp add: initial_state_def phase_duration_def)

text \<open>
  C2, as the claim words its second half: ticks spaced less than \<open>phase_duration\<close>
  apart. Two ticks at clock readings 20 and 40 after a phase that started at 0 are 20
  apart, and the second one escalates.
\<close>

theorem spaced_ticks_escalate:
  "spaced_less phase_duration (phase_start_time (initial_state 4 0 0 :: real ctrl)) [20, 40]
   \<and> phase (initial_state 4 0 0 :: real ctrl) = 1
   \<and> intensity (initial_state 4 0 0 :: real ctrl) = 1
   \<and> phase (ticks [20, 40] (initial_state 4 0 0 :: real ctrl)) = 2
   \<and> intensity (ticks [20, 40] (initial_state 4 0 0 :: real ctrl)) = 2"
  by (simp add: initial_state_def escalate_def escalate_stmts_def escalation_due_def
        phase_duration_def)

text \<open>
  C3. From phase 1 and intensity 1, after any ticks at any clock readings, one more tick
  never lowers the phase, never takes it above 4, never lowers the intensity, raises the
  intensity by exactly 1 when it escalates and leaves it alone when it does not.
\<close>

theorem escalation_monotone:
  assumes "s = ticks nows (initial_state n t_start t_loop)"
  shows "phase s \<le> phase (escalate now s) \<and> phase (escalate now s) \<le> 4
       \<and> intensity s \<le> intensity (escalate now s)
       \<and> (escalation_due now s \<longrightarrow> intensity (escalate now s) = intensity s + 1)
       \<and> (\<not> escalation_due now s \<longrightarrow> intensity (escalate now s) = intensity s)"
proof -
  have inv: "ctrl_inv s"
    unfolding assms by (rule ctrl_inv_ticks [OF ctrl_inv_initial])
  show ?thesis
    using inv
    by (cases "escalation_due now s") (auto simp: escalate_due escalate_not_due ctrl_inv_def)
qed

theorem escalation_monotone_witness:
  "phase (ticks [31, 62, 93] (initial_state 4 0 0 :: real ctrl)) = 4
   \<and> intensity (ticks [31, 62, 93] (initial_state 4 0 0 :: real ctrl)) = 4
   \<and> escalation_due 124 (ticks [31, 62, 93] (initial_state 4 0 0 :: real ctrl))
   \<and> phase (escalate 124 (ticks [31, 62, 93] (initial_state 4 0 0 :: real ctrl))) = 4
   \<and> intensity (escalate 124 (ticks [31, 62, 93] (initial_state 4 0 0 :: real ctrl))) = 5
   \<and> \<not> escalation_due 100 (ticks [31, 62, 93] (initial_state 4 0 0 :: real ctrl))
   \<and> intensity (escalate 100 (ticks [31, 62, 93] (initial_state 4 0 0 :: real ctrl))) = 4"
  using escalation_monotone [OF refl, where nows = "[31, 62, 93]" and n = 4 and t_start = 0
      and t_loop = 0 and now = 124, where ?'a = real]
    escalation_monotone [OF refl, where nows = "[31, 62, 93]" and n = 4 and t_start = 0
      and t_loop = 0 and now = 100, where ?'a = real]
  by (simp add: initial_state_def escalate_def escalate_stmts_def escalation_due_def
        phase_duration_def)

text \<open>
  C8, as the code has it. The escalation block writes the shared phase and the shared
  intensity with two statements, the phase first. The pairs that shared state holds while
  the block runs are, statement by statement: the old pair, then the new phase with the
  old intensity, then the new pair. Outside an escalation nothing is written.
\<close>

theorem escalation_publishes_phase_then_intensity:
  "published_pairs now s =
     (if escalation_due now s
      then [shared_pair s, shared_pair s, shared_pair s,
            (shared_phase (escalate now s), shared_intensity s),
            (shared_phase (escalate now s), shared_intensity s),
            shared_pair (escalate now s), shared_pair (escalate now s),
            shared_pair (escalate now s)]
      else [shared_pair s])"
  by (simp add: published_pairs_def escalate_due escalate_stmts_def shared_pair_def min_def)

theorem escalation_publishes_phase_then_intensity_witness:
  "escalation_due 30 (initial_state 4 0 0 :: real ctrl)
   \<and> published_pairs 30 (initial_state 4 0 0 :: real ctrl)
       = [(1, 1), (1, 1), (1, 1), (2, 1), (2, 1), (2, 2), (2, 2), (2, 2)]"
  using escalation_publishes_phase_then_intensity [of 30 "initial_state 4 0 0 :: real ctrl"]
  by (simp add: escalate_def escalate_stmts_def shared_pair_def escalation_due_def
        phase_duration_def initial_state_def)

text \<open>
  C8, as the claim states it: the pair is published atomically. During the first
  escalation shared state goes from \<open>(1, 1)\<close> to \<open>(2, 2)\<close> through \<open>(2, 1)\<close>, the new
  phase with the old intensity.
\<close>

theorem torn_pair_visible:
  "shared_pair (initial_state 4 0 0 :: real ctrl) = (1, 1)
   \<and> shared_pair (escalate 30 (initial_state 4 0 0 :: real ctrl)) = (2, 2)
   \<and> (2, 1) \<in> set (published_pairs 30 (initial_state 4 0 0 :: real ctrl))"
  by (simp add: published_pairs_def escalate_def escalate_stmts_def shared_pair_def
        escalation_due_def phase_duration_def initial_state_def)

section \<open>Sensor adapter: results\<close>

lemma failed_query_absent:
  "is_Exception e \<Longrightarrow>
   get_cpu_frequency B (Inl e) = Inr None \<and> get_cpu_temperature B (Inl e) = Inr None"
  by (simp add: get_cpu_frequency_def get_cpu_temperature_def except_Exception_return_None_def)

lemma get_cpu_frequency_returns:
  "query_outcome out \<Longrightarrow> \<exists>r. get_cpu_frequency B out = Inr r"
  by (auto simp: query_outcome_def get_cpu_frequency_def except_Exception_return_None_def
        decode_def py_index_def split: sum.splits option.splits)

lemma get_cpu_temperature_returns:
  "query_outcome out \<Longrightarrow> \<exists>r. get_cpu_temperature B out = Inr r"
  by (auto simp: query_outcome_def get_cpu_temperature_def except_Exception_return_None_def
        decode_def py_index_def split: sum.splits option.splits)

text \<open>The two functions on what \<^verbatim>\<open>vcgencmd\<close> prints, and on output that is not a reading.\<close>

lemma get_cpu_frequency_reading:
  "get_cpu_frequency ascii_builtins (Inr ''frequency(48)=1500000000\<newline>'') = Inr (Some 1500)"
  by (simp add: get_cpu_frequency_def except_Exception_return_None_def decode_def cont_byte_def
        py_index_def ascii_builtins_def ascii_int_def strip_def is_space_def is_digits_def
        digits_value_def)

lemma get_cpu_temperature_reading:
  "get_cpu_temperature ascii_builtins (Inr (''temp=47.2'' @ [CHR 0x27] @ ''C\<newline>''))
     = Inr (Some (472 / 10))"
  by (simp add: get_cpu_temperature_def except_Exception_return_None_def decode_def
        cont_byte_def py_index_def ascii_builtins_def ascii_float_def strip_def is_space_def
        is_digits_def digits_value_def)

lemma get_cpu_temperature_no_equals_sign:
  "get_cpu_temperature ascii_builtins (Inr ''garbage'') = Inr None"
  by (simp add: get_cpu_temperature_def except_Exception_return_None_def decode_def
        cont_byte_def py_index_def ascii_builtins_def)

lemma get_cpu_temperature_not_utf8:
  "get_cpu_temperature ascii_builtins (Inr [CHR 0xFF]) = Inr None"
  by (simp add: get_cpu_temperature_def except_Exception_return_None_def decode_def
        cont_byte_def py_index_def ascii_builtins_def)

text \<open>An interrupt is not caught by the sensor functions; the handler of \<^verbatim>\<open>main\<close> gets it.\<close>

lemma sensors_pass_interrupt:
  "get_cpu_frequency B (Inl KeyboardInterrupt) = Inl KeyboardInterrupt
   \<and> get_cpu_temperature B (Inl KeyboardInterrupt) = Inl KeyboardInterrupt"
  by (simp add: get_cpu_frequency_def get_cpu_temperature_def except_Exception_return_None_def)

text \<open>
  C4. Whatever the platform query does (it prints a reading, it prints anything else, it
  fails), and whatever Python's conversions make of the text, \<^verbatim>\<open>get_cpu_frequency\<close> and
  \<^verbatim>\<open>get_cpu_temperature\<close> return: a reading or \<^verbatim>\<open>None\<close>, and \<^verbatim>\<open>None\<close> when the query
  failed. No exception reaches the caller.
\<close>

theorem sensors_never_raise:
  assumes "query_outcome out"
  shows "(\<exists>r. get_cpu_frequency B out = Inr r) \<and> (\<exists>r. get_cpu_temperature B out = Inr r)
       \<and> (isl out \<longrightarrow>
            get_cpu_frequency B out = Inr None \<and> get_cpu_temperature B out = Inr None)"
proof -
  have "isl out \<longrightarrow>
          get_cpu_frequency B out = Inr None \<and> get_cpu_temperature B out = Inr None"
    using assms failed_query_absent [of _ B]
    by (cases out) (simp_all add: query_outcome_def)
  then show ?thesis
    using get_cpu_frequency_returns [OF assms] get_cpu_temperature_returns [OF assms] by blast
qed

theorem sensors_never_raise_witness:
  "query_outcome (Inl CalledProcessError)
   \<and> get_cpu_frequency ascii_builtins (Inl CalledProcessError) = Inr None
   \<and> get_cpu_temperature ascii_builtins (Inl CalledProcessError) = Inr None
   \<and> query_outcome (Inr ''garbage'')
   \<and> (\<exists>r. get_cpu_frequency ascii_builtins (Inr ''garbage'') = Inr r)
   \<and> (\<exists>r. get_cpu_temperature ascii_builtins (Inr ''garbage'') = Inr r)"
  using sensors_never_raise [of "Inl CalledProcessError" ascii_builtins]
    sensors_never_raise [of "Inr ''garbage''" ascii_builtins]
  by (simp add: query_outcome_def)

section \<open>Telemetry monitor: results\<close>

text \<open>
  C5. When a record is due and the load average and the utilisation are read, the
  record is printed whatever the two platform queries do: its frequency field is what
  \<^verbatim>\<open>get_cpu_frequency\<close> returned for the frequency query and its temperature field what
  \<^verbatim>\<open>get_cpu_temperature\<close> returned for the temperature query, a failed query leaves
  \<^verbatim>\<open>None\<close> in its own field only, and no exception leaves the block.
\<close>

theorem sensor_failure_stays_in_its_field:
  assumes "log_due (current_time inp) s"
    and "getloadavg inp = Inr load" and "cpu_percent inp = Inr usage"
    and "query_outcome (measure_clock inp)" and "query_outcome (measure_temp inp)"
  shows "\<exists>freq temp.
           get_cpu_frequency B (measure_clock inp) = Inr freq
         \<and> get_cpu_temperature B (measure_temp inp) = Inr temp
         \<and> (isl (measure_clock inp) \<longrightarrow> freq = None)
         \<and> (isl (measure_temp inp) \<longrightarrow> temp = None)
         \<and> log_telemetry B inp s =
             Inr (s\<lparr>printed := printed s @
                       [Telemetry \<lparr>timestamp = current_time inp, sample_phase = phase s,
                          sample_intensity = intensity s, cpu_freq_mhz = freq,
                          cpu_temp_c = temp, cpu_usage_pct = usage, load_avg = load\<rparr>],
                     last_log_time := current_time inp\<rparr>)"
proof -
  obtain freq where f: "get_cpu_frequency B (measure_clock inp) = Inr freq"
    using get_cpu_frequency_returns [OF assms(4)] by blast
  obtain temp where t: "get_cpu_temperature B (measure_temp inp) = Inr temp"
    using get_cpu_temperature_returns [OF assms(5)] by blast
  have fa: "isl (measure_clock inp) \<longrightarrow> freq = None"
    using f assms(4) failed_query_absent [of _ B]
    by (cases "measure_clock inp") (auto simp: query_outcome_def)
  have ta: "isl (measure_temp inp) \<longrightarrow> temp = None"
    using t assms(5) failed_query_absent [of _ B]
    by (cases "measure_temp inp") (auto simp: query_outcome_def)
  have "log_telemetry B inp s =
          Inr (s\<lparr>printed := printed s @
                    [Telemetry \<lparr>timestamp = current_time inp, sample_phase = phase s,
                       sample_intensity = intensity s, cpu_freq_mhz = freq,
                       cpu_temp_c = temp, cpu_usage_pct = usage, load_avg = load\<rparr>],
                  last_log_time := current_time inp\<rparr>)"
    using assms(1-3) f t by (simp add: log_telemetry_def)
  then show ?thesis
    using f t fa ta by blast
qed

theorem sensor_failure_stays_in_its_field_witness:
  "log_due (current_time temp_failed_input) (initial_state 4 0 0 :: real ctrl)
   \<and> query_outcome (measure_clock temp_failed_input)
   \<and> query_outcome (measure_temp temp_failed_input)
   \<and> log_telemetry ascii_builtins temp_failed_input (initial_state 4 0 0) =
       Inr ((initial_state 4 0 0)\<lparr>printed :=
              [Detected 4,
               Telemetry \<lparr>timestamp = 1, sample_phase = 1, sample_intensity = 1,
                  cpu_freq_mhz = Some 1500, cpu_temp_c = None, cpu_usage_pct = 100,
                  load_avg = (1, 1, 1)\<rparr>],
              last_log_time := 1\<rparr>)
   \<and> log_due (current_time (quiet_input 1)) (initial_state 4 0 0 :: real ctrl)
   \<and> query_outcome (measure_clock (quiet_input 1))
   \<and> query_outcome (measure_temp (quiet_input 1))
   \<and> log_telemetry ascii_builtins (quiet_input 1) (initial_state 4 0 0) =
       Inr ((initial_state 4 0 0)\<lparr>printed :=
              [Detected 4,
               Telemetry \<lparr>timestamp = 1, sample_phase = 1, sample_intensity = 1,
                  cpu_freq_mhz = None, cpu_temp_c = None, cpu_usage_pct = 0,
                  load_avg = (0, 0, 0)\<rparr>],
              last_log_time := 1\<rparr>)"
  using sensor_failure_stays_in_its_field [where inp = temp_failed_input
      and s = "initial_state 4 0 0 :: real ctrl" and B = ascii_builtins
      and load = "(1, 1, 1)" and usage = 100]
    sensor_failure_stays_in_its_field [where inp = "quiet_input 1"
      and s = "initial_state 4 0 0 :: real ctrl" and B = ascii_builtins
      and load = "(0, 0, 0)" and usage = 0]
    get_cpu_frequency_reading
  by (simp add: temp_failed_input_def quiet_input_def initial_state_def log_due_def
        query_outcome_def)

section \<open>The control loop: what an iteration keeps and what it logs\<close>

lemma escalate_keeps:
  "processes (escalate now s) = processes s \<and> terminated (escalate now s) = terminated s
   \<and> last_log_time (escalate now s) = last_log_time s
   \<and> sample_times (printed (escalate now s)) = sample_times (printed s)"
  by (cases "escalation_due now s")
     (simp_all add: escalate_due escalate_not_due sample_times_append)

lemma log_telemetry_result:
  assumes "log_telemetry B inp s = Inr s'"
  shows "processes s' = processes s \<and> terminated s' = terminated s
       \<and> last_log_time s' =
           (if log_due (current_time inp) s then current_time inp else last_log_time s)
       \<and> sample_times (printed s') =
           sample_times (printed s)
             @ (if log_due (current_time inp) s then [current_time inp] else [])"
  using assms
  by (auto simp: log_telemetry_def sample_times_append split: if_splits sum.splits)

lemma log_telemetry_ctrl_inv:
  assumes "log_telemetry B inp s = Inr s'" and "ctrl_inv s"
  shows "ctrl_inv s'"
  using assms
  by (auto simp: log_telemetry_def ctrl_inv_def escalations_append
        split: if_splits sum.splits)

lemma loop_body_ctrl_inv:
  assumes "ctrl_inv s"
  shows "ctrl_inv (snd (loop_body B inp s))"
  using ctrl_inv_escalate [OF assms, of "current_time inp"]
    log_telemetry_ctrl_inv [of B inp "escalate (current_time inp) s"]
  by (auto simp: loop_body_def Let_def split: sum.splits)

lemma control_loop_ctrl_inv: "ctrl_inv s \<Longrightarrow> ctrl_inv (snd (control_loop B inps s))"
proof (induction inps arbitrary: s)
  case Nil
  then show ?case by simp
next
  case (Cons inp inps)
  obtain x s' where lb: "loop_body B inp s = (x, s')"
    by (cases "loop_body B inp s")
  have inv: "ctrl_inv s'"
    using loop_body_ctrl_inv [OF Cons.prems, of B inp] lb by simp
  show ?case
    using lb inv Cons.IH [OF inv] by (cases x) simp_all
qed

lemma loop_body_keeps:
  "processes (snd (loop_body B inp s)) = processes s
   \<and> terminated (snd (loop_body B inp s)) = terminated s"
  using escalate_keeps [of "current_time inp" s]
    log_telemetry_result [of B inp "escalate (current_time inp) s"]
  by (auto simp: loop_body_def Let_def split: sum.splits)

lemma control_loop_keeps:
  "processes (snd (control_loop B inps s)) = processes s
   \<and> terminated (snd (control_loop B inps s)) = terminated s"
proof (induction inps arbitrary: s)
  case Nil
  show ?case by simp
next
  case (Cons inp inps)
  obtain x s' where lb: "loop_body B inp s = (x, s')"
    by (cases "loop_body B inp s")
  have keep: "processes s' = processes s \<and> terminated s' = terminated s"
    using loop_body_keeps [of B inp s] lb by simp
  show ?case
    using lb keep Cons.IH [of s'] by (cases x) simp_all
qed

text \<open>
  An iteration either leaves the log alone, and then it was not due if the iteration
  completed, or the record was due and is printed with the iteration's clock reading.
\<close>

lemma loop_body_log:
  assumes "loop_body B inp s = (x, s')"
  shows "(last_log_time s' = last_log_time s
          \<and> sample_times (printed s') = sample_times (printed s)
          \<and> (x = None \<longrightarrow> \<not> log_due (current_time inp) s))
       \<or> (log_due (current_time inp) s \<and> last_log_time s' = current_time inp
          \<and> sample_times (printed s') = sample_times (printed s) @ [current_time inp])"
proof (cases "log_telemetry B inp (escalate (current_time inp) s)")
  case (Inl e)
  then have "s' = escalate (current_time inp) s"
    using assms by (simp add: loop_body_def Let_def)
  then show ?thesis
    using escalate_keeps [of "current_time inp" s] Inl assms
    by (auto simp: loop_body_def Let_def)
next
  case (Inr s2)
  then have s': "s' = s2"
    using assms by (simp add: loop_body_def Let_def)
  have due: "log_due (current_time inp) (escalate (current_time inp) s)
               = log_due (current_time inp) s"
    using escalate_keeps [of "current_time inp" s] by (simp add: log_due_def)
  show ?thesis
    using log_telemetry_result [OF Inr] escalate_keeps [of "current_time inp" s] s' due
    by (cases "log_due (current_time inp) s") simp_all
qed

lemma separated_snoc:
  "separated ts \<Longrightarrow> list_all (\<lambda>t. now - t \<ge> 1) ts \<Longrightarrow> separated (ts @ [now])"
  by (induction ts rule: separated.induct) simp_all

lemma log_inv_loop_body:
  assumes "log_inv s" and "loop_body B inp s = (x, s')"
  shows "log_inv s'"
proof -
  from loop_body_log [OF assms(2)] show ?thesis
  proof
    assume "last_log_time s' = last_log_time s
          \<and> sample_times (printed s') = sample_times (printed s)
          \<and> (x = None \<longrightarrow> \<not> log_due (current_time inp) s)"
    then show ?thesis using assms(1) by (simp add: log_inv_def)
  next
    assume a: "log_due (current_time inp) s \<and> last_log_time s' = current_time inp
          \<and> sample_times (printed s') = sample_times (printed s) @ [current_time inp]"
    have old: "list_all (\<lambda>t. t \<le> last_log_time s) (sample_times (printed s))"
      using assms(1) by (simp add: log_inv_def)
    have gap: "list_all (\<lambda>t. current_time inp - t \<ge> 1) (sample_times (printed s))"
      using old a by (auto simp: list_all_iff log_due_def)
    have le: "list_all (\<lambda>t. t \<le> current_time inp) (sample_times (printed s))"
      using gap by (auto simp: list_all_iff)
    show ?thesis
      using a assms(1) separated_snoc [OF _ gap] le by (simp add: log_inv_def)
  qed
qed

lemma log_inv_control_loop: "log_inv s \<Longrightarrow> log_inv (snd (control_loop B inps s))"
proof (induction inps arbitrary: s)
  case Nil
  then show ?case by simp
next
  case (Cons inp inps)
  obtain x s' where lb: "loop_body B inp s = (x, s')"
    by (cases "loop_body B inp s")
  have inv: "log_inv s'"
    by (rule log_inv_loop_body [OF Cons.prems lb])
  show ?case
    using lb inv Cons.IH [OF inv] by (cases x) simp_all
qed

lemma log_inv_initial: "log_inv (initial_state n t_start t_loop)"
  by (simp add: log_inv_def initial_state_def)

lemma separated_tail: "separated (t # ts) \<Longrightarrow> separated ts"
  by (cases ts) simp_all

lemma separated_later: "separated (t # ts) \<Longrightarrow> list_all (\<lambda>u. t + 1 \<le> u) ts"
proof (induction ts arbitrary: t)
  case Nil
  show ?case by simp
next
  case (Cons u ts)
  have "list_all (\<lambda>v. u + 1 \<le> v) ts"
    using Cons.IH [of u] Cons.prems by simp
  then have "list_all (\<lambda>v. t + 1 \<le> v) ts"
    using Cons.prems by (auto simp: list_all_iff)
  then show ?case
    using Cons.prems by simp
qed

lemma separated_window: "separated ts \<Longrightarrow> length (samples_in a (a + 1) ts) \<le> 1"
proof (induction ts)
  case Nil
  show ?case by (simp add: samples_in_def)
next
  case (Cons t ts)
  have ih: "length (samples_in a (a + 1) ts) \<le> 1"
    using Cons.IH separated_tail [OF Cons.prems] by simp
  show ?case
  proof (cases "a \<le> t \<and> t < a + 1")
    case True
    have "list_all (\<lambda>u. t + 1 \<le> u) ts"
      by (rule separated_later [OF Cons.prems])
    then have "samples_in a (a + 1) ts = []"
      using True by (auto simp: samples_in_def filter_empty_conv list_all_iff)
    then show ?thesis
      using True by (simp add: samples_in_def)
  next
    case False
    then show ?thesis
      using ih by (auto simp: samples_in_def)
  qed
qed

lemma control_loop_extends:
  "set (sample_times (printed s))
     \<subseteq> set (sample_times (printed (snd (control_loop B inps s))))"
proof (induction inps arbitrary: s)
  case Nil
  show ?case by simp
next
  case (Cons inp inps)
  obtain x s' where lb: "loop_body B inp s = (x, s')"
    by (cases "loop_body B inp s")
  have step: "set (sample_times (printed s)) \<subseteq> set (sample_times (printed s'))"
    using loop_body_log [OF lb] by auto
  show ?case
    using lb step Cons.IH [of s'] by (cases x) auto
qed

text \<open>
  While the loop keeps running with iterations at most \<open>d\<close> apart, the first iteration
  that starts one time unit or more after the start of a window prints a record, less
  than \<open>1 + d\<close> after the start of the window.
\<close>

lemma sample_within_longer_window:
  assumes "fst (control_loop B inps s) = None"
    and "gaps_le d prev (map current_time inps)"
    and "last_log_time s \<le> a" and "prev < a + 1"
    and "list_ex (\<lambda>t. a + 1 \<le> t) (map current_time inps)"
  shows "samples_in a (a + 1 + d) (sample_times (printed (snd (control_loop B inps s)))) \<noteq> []"
  using assms
proof (induction inps arbitrary: s prev)
  case Nil
  then show ?case by simp
next
  case (Cons inp inps)
  let ?now = "current_time inp"
  obtain x s' where lb: "loop_body B inp s = (x, s')"
    by (cases "loop_body B inp s")
  have x: "x = None"
    using Cons.prems(1) lb by (cases x) simp_all
  have run: "control_loop B (inp # inps) s = control_loop B inps s'"
    using lb x by simp
  have gap: "prev \<le> ?now" "?now - prev \<le> d" "gaps_le d ?now (map current_time inps)"
    using Cons.prems(2) by simp_all
  have found:
    "samples_in a (a + 1 + d) (sample_times (printed (snd (control_loop B inps s')))) \<noteq> []"
    if "?now \<in> set (sample_times (printed s'))" and "a \<le> ?now" and "?now < a + 1 + d"
    using that control_loop_extends [of s' B inps]
    by (auto simp: samples_in_def filter_empty_conv)
  from loop_body_log [OF lb] show ?case
  proof
    assume quiet: "last_log_time s' = last_log_time s
        \<and> sample_times (printed s') = sample_times (printed s)
        \<and> (x = None \<longrightarrow> \<not> log_due ?now s)"
    then have "?now < a + 1"
      using x Cons.prems(3) by (simp add: log_due_def)
    moreover have "list_ex (\<lambda>t. a + 1 \<le> t) (map current_time inps)"
      using Cons.prems(5) \<open>?now < a + 1\<close> by simp
    moreover have "fst (control_loop B inps s') = None"
      using Cons.prems(1) run by simp
    ultimately show ?thesis
      using Cons.IH [of s' ?now] gap(3) quiet Cons.prems(3) run by simp
  next
    assume logged: "log_due ?now s \<and> last_log_time s' = ?now
        \<and> sample_times (printed s') = sample_times (printed s) @ [?now]"
    show ?thesis
    proof (cases "a \<le> ?now")
      case True
      have "?now < a + 1 + d"
        using gap Cons.prems(4) by simp
      then show ?thesis
        using found True logged run by simp
    next
      case False
      then have lt: "?now < a + 1" and le: "last_log_time s' \<le> a"
        using logged by simp_all
      have "list_ex (\<lambda>t. a + 1 \<le> t) (map current_time inps)"
        using Cons.prems(5) lt by simp
      moreover have "fst (control_loop B inps s') = None"
        using Cons.prems(1) run by simp
      ultimately show ?thesis
        using Cons.IH [of s' ?now] gap(3) le lt run by simp
    qed
  qed
qed

lemma steady_run:
  "control_loop ascii_builtins steady_inputs (initial_state 4 0 0)
     = (None, (initial_state 4 0 0)\<lparr>last_log_time := 24 / 10,
          printed := [Detected 4,
            Telemetry \<lparr>timestamp = 12 / 10, sample_phase = 1, sample_intensity = 1,
              cpu_freq_mhz = None, cpu_temp_c = None, cpu_usage_pct = 0,
              load_avg = (0, 0, 0)\<rparr>,
            Telemetry \<lparr>timestamp = 24 / 10, sample_phase = 1, sample_intensity = 1,
              cpu_freq_mhz = None, cpu_temp_c = None, cpu_usage_pct = 0,
              load_avg = (0, 0, 0)\<rparr>]\<rparr>)"
  by (simp add: steady_inputs_def quiet_input_def initial_state_def loop_body_def escalate_def
        escalation_due_def phase_duration_def log_telemetry_def log_due_def
        get_cpu_frequency_def get_cpu_temperature_def except_Exception_return_None_def)

text \<open>
  C6, as the code has it. In a run of the control loop from its start, whatever the clock
  readings and the outcomes of the calls, no window of one time unit holds the timestamps
  of two telemetry records. And while the loop keeps iterating, with iterations at most
  \<open>d\<close> time units apart, every window of \<open>1 + d\<close> time units holds one, provided the
  window starts after the loop was entered and some iteration starts one time unit or
  more after the window does.
\<close>

theorem telemetry_sampling_rate:
  assumes "r = control_loop B inps (initial_state n t_start t_loop)"
  shows "length (samples_in a (a + 1) (sample_times (printed (snd r)))) \<le> 1
       \<and> (fst r = None \<and> gaps_le d t_loop (map current_time inps) \<and> t_loop \<le> a
            \<and> list_ex (\<lambda>t. a + 1 \<le> t) (map current_time inps)
          \<longrightarrow> samples_in a (a + 1 + d) (sample_times (printed (snd r))) \<noteq> [])"
proof -
  have "log_inv (snd r)"
    unfolding assms by (rule log_inv_control_loop [OF log_inv_initial])
  then have most: "length (samples_in a (a + 1) (sample_times (printed (snd r)))) \<le> 1"
    using separated_window by (simp add: log_inv_def)
  have least: "samples_in a (a + 1 + d) (sample_times (printed (snd r))) \<noteq> []"
    if "fst r = None" and "gaps_le d t_loop (map current_time inps)" and "t_loop \<le> a"
      and "list_ex (\<lambda>t. a + 1 \<le> t) (map current_time inps)"
    unfolding assms
    using sample_within_longer_window [of B inps "initial_state n t_start t_loop" d t_loop a]
      that
    by (simp add: assms initial_state_def)
  show ?thesis
    using most least by blast
qed

theorem telemetry_sampling_rate_witness:
  "fst (control_loop ascii_builtins steady_inputs (initial_state 4 0 0)) = None
   \<and> gaps_le (3 / 10) 0 (map current_time steady_inputs)
   \<and> (0::real) \<le> 13 / 10
   \<and> list_ex (\<lambda>t. 13 / 10 + 1 \<le> t) (map current_time steady_inputs)
   \<and> samples_in (13 / 10) (13 / 10 + 1 + 3 / 10)
        (sample_times
           (printed (snd (control_loop ascii_builtins steady_inputs (initial_state 4 0 0)))))
       \<noteq> []
   \<and> length (samples_in (5 / 10) (5 / 10 + 1)
        (sample_times
           (printed (snd (control_loop ascii_builtins steady_inputs (initial_state 4 0 0))))))
       \<le> 1"
  using telemetry_sampling_rate [OF refl, where B = ascii_builtins and inps = steady_inputs
      and n = 4 and t_start = 0 and t_loop = 0 and a = "13 / 10" and d = "3 / 10"]
    telemetry_sampling_rate [OF refl, where B = ascii_builtins and inps = steady_inputs
      and n = 4 and t_start = 0 and t_loop = 0 and a = "5 / 10" and d = "3 / 10"]
  by (simp add: steady_run samples_in_def) (simp add: steady_inputs_def quiet_input_def)

text \<open>
  C6, as the claim states it: at least one record in every window of one time unit. With
  an iteration every 0.3 time units the records are printed at 1.2 and at 2.4, and the
  window that starts at 1.3 holds none, although three iterations start in it.
\<close>

theorem no_sample_in_unit_window:
  "fst (control_loop ascii_builtins steady_inputs (initial_state 4 0 0)) = None
   \<and> gaps_le (3 / 10) 0 (map current_time steady_inputs)
   \<and> samples_in (13 / 10) (13 / 10 + 1)
        (sample_times
           (printed (snd (control_loop ascii_builtins steady_inputs (initial_state 4 0 0)))))
       = []"
  by (simp add: steady_run samples_in_def) (simp add: steady_inputs_def quiet_input_def)

text \<open>
  C9. From phase 1 and intensity 1, after any ticks of the escalation block, and after
  any iterations of the control loop whatever their inputs, the phase is the smaller of
  the intensity and 4, and the intensity is 1 plus the number of escalations so far, each
  of which printed its line.
\<close>

theorem phase_is_clamped_intensity:
  assumes "s = ticks nows (initial_state n t_start t_loop)
           \<or> s = snd (control_loop B inps (initial_state n t_start t_loop))"
  shows "phase s = min (intensity s) 4 \<and> intensity s = 1 + int (escalations (printed s))"
proof -
  have "ctrl_inv s"
    using assms ctrl_inv_ticks [OF ctrl_inv_initial]
      control_loop_ctrl_inv [OF ctrl_inv_initial] by blast
  then show ?thesis
    by (simp add: ctrl_inv_def)
qed

theorem phase_is_clamped_intensity_witness:
  "phase (ticks [10, 31, 40, 62, 95, 130, 160] (initial_state 4 0 0 :: real ctrl)) = 4
   \<and> intensity (ticks [10, 31, 40, 62, 95, 130, 160] (initial_state 4 0 0 :: real ctrl)) = 6
   \<and> escalations
        (printed (ticks [10, 31, 40, 62, 95, 130, 160] (initial_state 4 0 0 :: real ctrl))) = 5"
  using phase_is_clamped_intensity [OF disjI1, OF refl,
      where nows = "[10, 31, 40, 62, 95, 130, 160]" and n = 4 and t_start = 0 and t_loop = 0,
      where ?'a = real]
  by (simp add: initial_state_def escalate_def escalate_stmts_def escalation_due_def
        phase_duration_def)

section \<open>Supervisor: results\<close>

lemma for_range_spawn:
  "for_range n (\<lambda>procs. procs @ [length procs]) (ps, c)
     = (ps @ [length ps..<length ps + n], c + n)"
proof (induction n arbitrary: ps c)
  case 0
  show ?case by simp
next
  case (Suc n)
  have "[length ps..<length ps + Suc n]
          = length ps # [Suc (length ps)..<Suc (length ps) + n]"
    by (simp add: upt_conv_Cons)
  then show ?case
    using Suc.IH [of "ps @ [length ps]" "Suc c"] by simp
qed

lemma spawn_workers_eq: "spawn_workers n = [0..<n]"
  by (simp add: spawn_workers_def for_range_spawn)

lemma fold_terminate:
  "fold (\<lambda>p s'. s'\<lparr>terminated := terminated s' @ [p]\<rparr>) ps s
     = s\<lparr>terminated := terminated s @ ps\<rparr>"
  by (induction ps arbitrary: s) simp_all

lemma stop_eq:
  "stop s = s\<lparr>printed := printed s @ [Stopping], terminated := terminated s @ processes s\<rparr>"
  by (simp add: stop_def fold_terminate)

lemma count_list_distinct: "distinct xs \<Longrightarrow> x \<in> set xs \<Longrightarrow> count_list xs x = 1"
  by (induction xs) (auto simp: count_list_0_iff)

text \<open>
  C7. When the control loop of a supervisor that spawned \<open>n\<close> workers is ended by
  \<^verbatim>\<open>KeyboardInterrupt\<close>, \<^verbatim>\<open>main\<close> calls \<^verbatim>\<open>terminate\<close> on each of the \<open>n\<close> process objects
  once, in the order they were spawned, on nothing else, and exits with status 0.
\<close>

theorem interrupt_terminates_each_worker_once:
  assumes "fst (control_loop B inps (initial_state n t_start t_loop)) = Some KeyboardInterrupt"
    and "r = main B n t_start t_loop inps"
  shows "fst r = Exited 0 \<and> processes (snd r) = [0..<n] \<and> terminated (snd r) = [0..<n]
       \<and> (\<forall>p. count_list (terminated (snd r)) p
                 = (if p \<in> set (processes (snd r)) then 1 else 0))"
proof -
  obtain s where
    cl: "control_loop B inps (initial_state n t_start t_loop) = (Some KeyboardInterrupt, s)"
    using assms(1) by (cases "control_loop B inps (initial_state n t_start t_loop)") simp
  have keep: "processes s = [0..<n] \<and> terminated s = []"
    using control_loop_keeps [of B inps "initial_state n t_start t_loop"] cl
    by (simp add: initial_state_def spawn_workers_eq)
  have r: "r = (Exited 0, stop s)"
    using assms(2) cl by (simp add: main_def)
  have cnt: "count_list [0..<n] p = (if p \<in> set [0..<n] then 1 else 0)" for p
    using count_list_distinct [of "[0..<n]" p] by (simp add: count_list_0_iff)
  show ?thesis
    using r keep cnt by (simp add: stop_eq)
qed

theorem interrupt_terminates_each_worker_once_witness:
  "fst (control_loop ascii_builtins [quiet_input 1, interrupted_input 2] (initial_state 4 0 0))
     = Some KeyboardInterrupt
   \<and> fst (main ascii_builtins 4 0 0 [quiet_input 1, interrupted_input 2]) = Exited 0
   \<and> terminated (snd (main ascii_builtins 4 0 0 [quiet_input 1, interrupted_input 2]))
       = [0..<4]"
  using interrupt_terminates_each_worker_once
    [OF _ refl, where B = ascii_builtins and inps = "[quiet_input 1, interrupted_input 2]"
       and n = 4 and t_start = 0 and t_loop = 0]
  by (simp add: quiet_input_def interrupted_input_def initial_state_def loop_body_def
        escalate_def escalation_due_def phase_duration_def log_telemetry_def log_due_def
        get_cpu_frequency_def get_cpu_temperature_def except_Exception_return_None_def)

end
